theory Spec2Isabelle
  imports Complex_Main
begin

section \<open>Color values\<close>

text \<open>
  The color resolution engine of \<^verbatim>\<open>src/base.ts\<close>. A color value is a string (a literal
  when it starts with \<^verbatim>\<open>#\<close>, an identifier otherwise) or a transform object; the
  resolver also receives \<^verbatim>\<open>null\<close> (an explicit "no color") and whatever indexing the
  theme object yields: \<^verbatim>\<open>undefined\<close> for a key it does not have, a function for a method
  it inherits from \<^verbatim>\<open>Object.prototype\<close>, and that prototype itself for the key
  \<^verbatim>\<open>__proto__\<close>. \<open>UnknownOp\<close> is an object whose \<^verbatim>\<open>op\<close> is none of the six tags, as the
  prototype is. Numbers are modelled
  as reals; the non-finite results of a division are kept apart in \<open>number\<close>, because
  the library treats them differently from finite amounts.
\<close>

datatype error = TypeError | InvalidTransform | SyntaxError

datatype number = Finite real | NaN | PosInfinity | NegInfinity

datatype ColorValue = Null | Undefined | Function | Str string | Obj ColorTransform
and ColorTransform =
    Darken ColorValue real
  | Lighten ColorValue real
  | Transparent ColorValue real
  | OneOf "ColorValue list"
  | LessProminent ColorValue ColorValue real real
  | IfDefinedThenElse string ColorValue ColorValue
  | UnknownOp

section \<open>The interface of the color library\<close>

text \<open>
  \<^verbatim>\<open>base.ts\<close> imports the library \<^verbatim>\<open>tinycolor2\<close> and uses six of its operations: the
  constructor, \<^verbatim>\<open>darken\<close>, \<^verbatim>\<open>lighten\<close>, \<^verbatim>\<open>setAlpha\<close>, \<^verbatim>\<open>toHexString\<close> and
  \<^verbatim>\<open>getLuminance\<close>. The resolver is defined over any implementation of them; the
  library's own behaviour is modelled further down and used for concrete evaluations.
  \<^verbatim>\<open>toHexString\<close> is the library's \<^verbatim>\<open>'#' + this.toHex()\<close>.
\<close>

record 'tc tinycolor_lib =
  tc_parse :: "string \<Rightarrow> 'tc"
  tc_darken :: "number \<Rightarrow> 'tc \<Rightarrow> 'tc"
  tc_lighten :: "number \<Rightarrow> 'tc \<Rightarrow> 'tc"
  tc_setAlpha :: "real \<Rightarrow> 'tc \<Rightarrow> 'tc"
  tc_toHex :: "'tc \<Rightarrow> string"
  tc_getLuminance :: "'tc \<Rightarrow> real"

definition toHexString :: "'tc tinycolor_lib \<Rightarrow> 'tc \<Rightarrow> string" where
  "toHexString lib c = CHR ''#'' # tc_toHex lib c"

section \<open>The lookup context\<close>

text \<open>
  The parameter \<^verbatim>\<open>theme: any\<close> of the resolver is indexed as an object
  (\<^verbatim>\<open>theme[colorValue]\<close>) and asked \<^verbatim>\<open>theme.defines(id)\<close>. \<open>props\<close> are its entries;
  \<open>defines_method\<close> is its method \<^verbatim>\<open>defines\<close> when it has one. Calling a missing
  method raises a \<^verbatim>\<open>TypeError\<close>. Indexing follows the prototype chain: a key without
  an entry of its own is looked up in \<^verbatim>\<open>Object.prototype\<close>, whose members are the
  methods listed in \<open>objectPrototypeMethods\<close> and the accessor \<^verbatim>\<open>__proto__\<close>, which
  returns the prototype object.
\<close>

record theme =
  props :: "string \<rightharpoonup> ColorValue"
  defines_method :: "(string \<Rightarrow> bool) option"

type_synonym result = "error + string option"

section \<open>Prominence arithmetic\<close>

text \<open>
  \<^verbatim>\<open>Color.getLighterColor\<close> and \<^verbatim>\<open>Color.getDarkerColor\<close>. The test
  \<^verbatim>\<open>factor ? factor : 0.5\<close> replaces a factor of zero by one half. \<open>js_div\<close> is the
  division of two finite numbers, which yields \<^verbatim>\<open>NaN\<close> or an infinity when the divisor
  is zero.
\<close>

definition js_div :: "real \<Rightarrow> real \<Rightarrow> number" where
  "js_div x y =
     (if y \<noteq> 0 then Finite (x / y)
      else if x = 0 then NaN
      else if 0 < x then PosInfinity else NegInfinity)"

definition getLighterColor :: "'tc tinycolor_lib \<Rightarrow> 'tc \<Rightarrow> 'tc \<Rightarrow> real \<Rightarrow> 'tc" where
  "getLighterColor lib of' relative factor =
     (if tc_getLuminance lib of' > tc_getLuminance lib relative then of'
      else
        let factor1 = (if factor \<noteq> 0 then factor else 0.5);
            lum1 = tc_getLuminance lib of';
            lum2 = tc_getLuminance lib relative
        in tc_lighten lib (js_div (factor1 * (lum2 - lum1)) lum2) of')"

definition getDarkerColor :: "'tc tinycolor_lib \<Rightarrow> 'tc \<Rightarrow> 'tc \<Rightarrow> real \<Rightarrow> 'tc" where
  "getDarkerColor lib of' relative factor =
     (if tc_getLuminance lib of' < tc_getLuminance lib relative then of'
      else
        let factor1 = (if factor \<noteq> 0 then factor else 0.5);
            lum1 = tc_getLuminance lib of';
            lum2 = tc_getLuminance lib relative
        in tc_darken lib (js_div (factor1 * (lum1 - lum2)) lum1) of')"

section \<open>The resolver\<close>

text \<open>
  \<^verbatim>\<open>resolveColorValue\<close> and \<^verbatim>\<open>executeTransform\<close> call each other and need not
  terminate: an identifier may refer back to itself. Both are one partial function on the
  sum of their arguments; the outer \<open>option\<close> is \<open>None\<close> when the recursion does not
  end. A result is \<open>Inl e\<close> for a raised error, \<open>Inr None\<close> for \<^verbatim>\<open>undefined\<close> and
  \<open>Inr (Some s)\<close> for a color string. The tests \<^verbatim>\<open>!color\<close> and \<^verbatim>\<open>if (color)\<close> treat
  the empty string like \<^verbatim>\<open>undefined\<close>.
\<close>

definition isLiteral :: "string \<Rightarrow> bool" where
  "isLiteral s = (case s of [] \<Rightarrow> False | c # _ \<Rightarrow> c = CHR ''#'')"

definition objectPrototypeMethods :: "string list" where
  "objectPrototypeMethods =
     [''constructor'', ''hasOwnProperty'', ''isPrototypeOf'', ''propertyIsEnumerable'',
      ''toLocaleString'', ''toString'', ''valueOf'', ''__defineGetter__'', ''__defineSetter__'',
      ''__lookupGetter__'', ''__lookupSetter__'']"

definition lookup :: "theme \<Rightarrow> string \<Rightarrow> ColorValue" where
  "lookup th k =
     (case props th k of
        Some v \<Rightarrow> v
      | None \<Rightarrow>
          if k = ''__proto__'' then Obj UnknownOp
          else if k \<in> set objectPrototypeMethods then Function
          else Undefined)"

definition call_defines :: "theme \<Rightarrow> string \<Rightarrow> error + bool" where
  "call_defines th ident = (case defines_method th of None \<Rightarrow> Inl TypeError | Some d \<Rightarrow> Inr (d ident))"

fun oneOf_loop :: "('a \<Rightarrow> result option) \<Rightarrow> 'a list \<Rightarrow> result option" where
  "oneOf_loop f [] = Some (Inr None)"
| "oneOf_loop f (candidate # rest) =
     Option.bind (f candidate) (\<lambda>r. case r of
         Inl e \<Rightarrow> Some (Inl e)
       | Inr None \<Rightarrow> oneOf_loop f rest
       | Inr (Some color) \<Rightarrow> if color \<noteq> [] then Some (Inr (Some color)) else oneOf_loop f rest)"

lemma oneOf_loop_mono [partial_function_mono]:
  assumes "\<And>c. mono_option (\<lambda>f. F f c)"
  shows "mono_option (\<lambda>f. oneOf_loop (F f) cs)"
proof (induction cs)
  case Nil
  show ?case by (simp add: option.const_mono)
next
  case (Cons c cs)
  show ?case
    unfolding oneOf_loop.simps
  proof (rule bind_mono [OF assms])
    fix r :: result
    show "mono_option (\<lambda>f. case r of
         Inl e \<Rightarrow> Some (Inl e)
       | Inr None \<Rightarrow> oneOf_loop (F f) cs
       | Inr (Some color) \<Rightarrow> if color \<noteq> [] then Some (Inr (Some color)) else oneOf_loop (F f) cs)"
    proof (cases r)
      case (Inl e)
      then show ?thesis by (simp add: option.const_mono)
    next
      case (Inr b)
      show ?thesis
      proof (cases b)
        case None
        with Inr show ?thesis by (simp add: Cons)
      next
        case (Some color)
        with Inr show ?thesis
          by (cases "color = []") (simp_all add: Cons option.const_mono)
      qed
    qed
  qed
qed

partial_function (option) resolve_exec ::
  "'tc tinycolor_lib \<Rightarrow> theme \<Rightarrow> ColorValue + ColorTransform \<Rightarrow> result option"
where
  "resolve_exec lib th x =
    (case x of
       Inl colorValue \<Rightarrow>
         (case colorValue of
            Null \<Rightarrow> Some (Inr None)
          | Str s \<Rightarrow>
              if isLiteral s then Some (Inr (Some s))
              else resolve_exec lib th (Inl (lookup th s))
          | Obj transform \<Rightarrow> resolve_exec lib th (Inr transform)
          | Undefined \<Rightarrow> Some (Inr None)
          | Function \<Rightarrow> Some (Inr None))
     | Inr transform \<Rightarrow>
         (case transform of
            Darken v factor \<Rightarrow>
              Option.bind (resolve_exec lib th (Inl v)) (\<lambda>r. case r of
                  Inl e \<Rightarrow> Some (Inl e)
                | Inr None \<Rightarrow> Some (Inr None)
                | Inr (Some color) \<Rightarrow>
                    if color = [] then Some (Inr None)
                    else Some (Inr (Some (toHexString lib
                           (tc_darken lib (Finite factor) (tc_parse lib color))))))
          | Lighten v factor \<Rightarrow>
              Option.bind (resolve_exec lib th (Inl v)) (\<lambda>r. case r of
                  Inl e \<Rightarrow> Some (Inl e)
                | Inr None \<Rightarrow> Some (Inr None)
                | Inr (Some color) \<Rightarrow>
                    if color = [] then Some (Inr None)
                    else Some (Inr (Some (toHexString lib
                           (tc_lighten lib (Finite factor) (tc_parse lib color))))))
          | Transparent v factor \<Rightarrow>
              Option.bind (resolve_exec lib th (Inl v)) (\<lambda>r. case r of
                  Inl e \<Rightarrow> Some (Inl e)
                | Inr None \<Rightarrow> Some (Inr None)
                | Inr (Some color) \<Rightarrow>
                    if color = [] then Some (Inr None)
                    else Some (Inr (Some (toHexString lib
                           (tc_setAlpha lib factor (tc_parse lib color))))))
          | OneOf vs \<Rightarrow> oneOf_loop (\<lambda>candidate. resolve_exec lib th (Inl candidate)) vs
          | IfDefinedThenElse ident thenv elsev \<Rightarrow>
              (case call_defines th ident of
                 Inl e \<Rightarrow> Some (Inl e)
               | Inr b \<Rightarrow> resolve_exec lib th (Inl (if b then thenv else elsev)))
          | LessProminent v background factor transparency \<Rightarrow>
              Option.bind (resolve_exec lib th (Inl v)) (\<lambda>r. case r of
                  Inl e \<Rightarrow> Some (Inl e)
                | Inr None \<Rightarrow> Some (Inr None)
                | Inr (Some from) \<Rightarrow>
                    if from = [] then Some (Inr None)
                    else Option.bind (resolve_exec lib th (Inl background)) (\<lambda>rb.
                      let alphaOnly = Some (Inr (Some (toHexString lib
                              (tc_setAlpha lib (factor * transparency) (tc_parse lib from)))))
                      in case rb of
                        Inl e \<Rightarrow> Some (Inl e)
                      | Inr None \<Rightarrow> alphaOnly
                      | Inr (Some backgroundColor) \<Rightarrow>
                          if backgroundColor = [] then alphaOnly
                          else
                            let tFrom = tc_parse lib from;
                                tBg = tc_parse lib backgroundColor
                            in Some (Inr (Some
                                 (if tc_getLuminance lib tFrom < tc_getLuminance lib tBg
                                  then toHexString lib (tc_setAlpha lib transparency
                                         (getLighterColor lib tFrom tBg factor))
                                  else toHexString lib (tc_setAlpha lib transparency
                                         (getDarkerColor lib tFrom tBg factor)))))))
          | UnknownOp \<Rightarrow> Some (Inl InvalidTransform)))"

definition resolveColorValue ::
  "'tc tinycolor_lib \<Rightarrow> theme \<Rightarrow> ColorValue \<Rightarrow> result option" where
  "resolveColorValue lib th colorValue = resolve_exec lib th (Inl colorValue)"

definition executeTransform ::
  "'tc tinycolor_lib \<Rightarrow> theme \<Rightarrow> ColorTransform \<Rightarrow> result option" where
  "executeTransform lib th transform = resolve_exec lib th (Inr transform)"

section \<open>The registry and the theme overlay\<close>

text \<open>
  \<^verbatim>\<open>schemes\<close> holds one table per appearance variant. \<^verbatim>\<open>registerColor\<close> walks the
  keys of the defaults and stores every truthy value under the identifier; the state is
  passed explicitly. The keys of one defaults object are distinct, so the order of the
  walk does not matter.
\<close>

datatype SchemeKey = Light | Dark | HcDark | HcLight

type_synonym scheme = "string \<rightharpoonup> ColorValue"

type_synonym schemes = "SchemeKey \<Rightarrow> scheme"

record ColorDefaults =
  light :: ColorValue
  dark :: ColorValue
  hcDark :: ColorValue
  hcLight :: ColorValue

definition defaultsValue :: "ColorDefaults \<Rightarrow> SchemeKey \<Rightarrow> ColorValue" where
  "defaultsValue defaults key =
     (case key of Light \<Rightarrow> light defaults | Dark \<Rightarrow> dark defaults
      | HcDark \<Rightarrow> hcDark defaults | HcLight \<Rightarrow> hcLight defaults)"

definition truthy :: "ColorValue \<Rightarrow> bool" where
  "truthy v =
     (case v of Null \<Rightarrow> False | Undefined \<Rightarrow> False | Function \<Rightarrow> True
      | Str s \<Rightarrow> s \<noteq> [] | Obj t \<Rightarrow> True)"

fun registerLoop :: "ColorDefaults \<Rightarrow> string \<Rightarrow> SchemeKey list \<Rightarrow> schemes \<Rightarrow> schemes" where
  "registerLoop defaults ident [] sch = sch"
| "registerLoop defaults ident (key # keys) sch =
     (let v = defaultsValue defaults key
      in if \<not> truthy v then registerLoop defaults ident keys sch
         else registerLoop defaults ident keys (sch(key := (sch key)(ident \<mapsto> v))))"

definition registerColor ::
  "string \<Rightarrow> ColorDefaults option \<Rightarrow> string \<Rightarrow> schemes \<Rightarrow> string \<times> schemes" where
  "registerColor ident defaults description sch =
     (case defaults of
        None \<Rightarrow> (ident, sch)
      | Some d \<Rightarrow> (ident, registerLoop d ident [Light, Dark, HcDark, HcLight] sch))"

definition emptySchemes :: schemes where
  "emptySchemes = (\<lambda>key. Map.empty)"

text \<open>
  The two registrations of \<^verbatim>\<open>editorWarning.foreground\<close> and
  \<^verbatim>\<open>editorWarning.border\<close>, with the values \<^verbatim>\<open>base.ts\<close> gives them.
  \<^verbatim>\<open>Color.fromHex(c).transparent(f)\<close> is \<^verbatim>\<open>tinycolor2(c).setAlpha(f).toHexString()\<close>.
\<close>

definition fromHex_transparent :: "'tc tinycolor_lib \<Rightarrow> string \<Rightarrow> real \<Rightarrow> string" where
  "fromHex_transparent lib color factor =
     toHexString lib (tc_setAlpha lib factor (tc_parse lib color))"

definition editorWarningForeground :: "schemes \<Rightarrow> string \<times> schemes" where
  "editorWarningForeground =
     registerColor ''editorWarning.foreground''
       (Some \<lparr>light = Str ''#BF8803'', dark = Str ''#CCA700'',
              hcDark = Str ''#FFD37'', hcLight = Str ''#895503''\<rparr>)
       ''Foreground color of warning squigglies in the editor.''"

definition editorWarningBorder :: "'tc tinycolor_lib \<Rightarrow> schemes \<Rightarrow> string \<times> schemes" where
  "editorWarningBorder lib =
     registerColor ''editorWarning.border''
       (Some \<lparr>light = Null, dark = Null,
              hcDark = Str (fromHex_transparent lib ''#FFCC00'' 0.8), hcLight = Str ''#''\<rparr>)
       ''Border color of warning boxes in the editor.''"

text \<open>
  A theme as the loader hands it to a provider, and the context both providers build from
  it: \<^verbatim>\<open>{ ...schemes[theme.type || "light"], ...theme.colors }\<close>, a plain object without
  a method \<^verbatim>\<open>defines\<close>.
\<close>

record TokenSettings =
  foreground :: "string option"
  fontStyle :: "string option"

record TokenColor =
  scope :: "string + string list"
  settings :: TokenSettings

record VSCodeTheme =
  theme_type :: "SchemeKey option"
  theme_name :: string
  colors :: "string \<rightharpoonup> string"
  include_path :: "string option"
  tokenColors :: "TokenColor list"

definition themeColors :: "schemes \<Rightarrow> VSCodeTheme \<Rightarrow> theme" where
  "themeColors sch vstheme =
     (let type = (case theme_type vstheme of None \<Rightarrow> Light | Some t \<Rightarrow> t);
          baseTheme = sch type
      in \<lparr>props = baseTheme ++ (map_option Str \<circ> colors vstheme), defines_method = None\<rparr>)"

definition getColor :: "'tc tinycolor_lib \<Rightarrow> schemes \<Rightarrow> VSCodeTheme \<Rightarrow> string \<Rightarrow> result option" where
  "getColor lib sch vstheme ident = resolveColorValue lib (themeColors sch vstheme) (Str ident)"

section \<open>The include merge of the loader\<close>

text \<open>
  The part of \<^verbatim>\<open>downloadTheme\<close> that merges an included base theme. \<open>files\<close> stands for
  reading and parsing the file the include path names; a missing file makes
  \<^verbatim>\<open>JSON.parse\<close> raise. An empty include path is falsy and skips the merge.
\<close>

definition mergeInclude :: "(string \<rightharpoonup> VSCodeTheme) \<Rightarrow> VSCodeTheme \<Rightarrow> error + VSCodeTheme" where
  "mergeInclude files vscodeTheme =
     (case include_path vscodeTheme of
        None \<Rightarrow> Inr vscodeTheme
      | Some p \<Rightarrow>
          if p = [] then Inr vscodeTheme
          else (case files p of
                  None \<Rightarrow> Inl SyntaxError
                | Some includedTheme \<Rightarrow>
                    Inr (vscodeTheme\<lparr>colors := colors includedTheme ++ colors vscodeTheme,
                          tokenColors := tokenColors vscodeTheme @ tokenColors includedTheme\<rparr>)))"

section \<open>The library \<^verbatim>\<open>tinycolor2\<close>\<close>

text \<open>
  \<^verbatim>\<open>tinycolor2\<close> is a dependency of the repository, not part of its sources. This is a
  model of the operations that \<^verbatim>\<open>base.ts\<close> calls, in exact
  arithmetic: an instance holds the channels \<^verbatim>\<open>_r\<close>, \<^verbatim>\<open>_g\<close>, \<^verbatim>\<open>_b\<close> in \<open>[0, 255]\<close>
  and \<^verbatim>\<open>_a\<close> in \<open>[0, 1]\<close>. Of the input notations only the hexadecimal ones are
  modelled (3, 4, 6 or 8 digits, the \<^verbatim>\<open>#\<close> optional); any other string is taken as
  unparseable, which the library turns into opaque black. \<^verbatim>\<open>lighten\<close> and \<^verbatim>\<open>darken\<close>
  take their amount in percent of the lightness, replace a \<^verbatim>\<open>NaN\<close> amount by 10 and go
  through HSL, where the library cuts lightness and saturation to a hundredth of a percent.
  \<^verbatim>\<open>toHex\<close> prints the three color channels only.
\<close>

record tinycolor =
  red :: real
  green :: real
  blue :: real
  alpha :: real

definition mathRound :: "real \<Rightarrow> int" where
  "mathRound x = \<lfloor>x + 1 / 2\<rfloor>"

definition clamp01 :: "real \<Rightarrow> real" where
  "clamp01 val = min 1 (max 0 val)"

definition boundAlpha :: "real \<Rightarrow> real" where
  "boundAlpha a = (if a < 0 \<or> 1 < a then 1 else a)"

datatype css_unit = Num real | Percent real

definition bound01 :: "css_unit \<Rightarrow> real \<Rightarrow> real" where
  "bound01 n mx =
     (case n of
        Num x \<Rightarrow>
          (let n1 = min mx (max 0 x)
           in if \<bar>n1 - mx\<bar> < 0.000001 then 1 else n1 / mx)
      | Percent p \<Rightarrow>
          (let n1 = min mx (max 0 p);
               n2 = of_int \<lfloor>n1 * mx\<rfloor> / 100
           in if \<bar>n2 - mx\<bar> < 0.000001 then 1 else n2 / mx))"

definition convertToPercentage :: "real \<Rightarrow> css_unit" where
  "convertToPercentage n = (if n \<le> 1 then Percent (n * 100) else Num n)"

definition hexDigit :: "char \<Rightarrow> nat option" where
  "hexDigit c =
     (let k = of_char c :: nat
      in if 48 \<le> k \<and> k \<le> 57 then Some (k - 48)
         else if 97 \<le> k \<and> k \<le> 102 then Some (k - 87)
         else if 65 \<le> k \<and> k \<le> 70 then Some (k - 55)
         else None)"

fun parseIntFromHex :: "string \<Rightarrow> nat option" where
  "parseIntFromHex [c1, c2] =
     (case (hexDigit c1, hexDigit c2) of
        (Some h, Some l) \<Rightarrow> Some (16 * h + l)
      | _ \<Rightarrow> None)"
| "parseIntFromHex _ = None"

definition isSpace :: "char \<Rightarrow> bool" where
  "isSpace c = (c = CHR '' '' \<or> c = CHR 0x09 \<or> c = CHR 0x0A \<or> c = CHR 0x0D)"

definition trim :: "string \<Rightarrow> string" where
  "trim s = rev (dropWhile isSpace (rev (dropWhile isSpace s)))"

definition hexChannels :: "string list \<Rightarrow> nat list option" where
  "hexChannels ps =
     (if list_all (\<lambda>p. parseIntFromHex p \<noteq> None) ps
      then Some (map (\<lambda>p. the (parseIntFromHex p)) ps) else None)"

fun stringInputToObject :: "string \<Rightarrow> (real \<times> real \<times> real \<times> real) option" where
  "stringInputToObject s =
     (let color = trim s;
          body = (case color of c # cs \<Rightarrow> if c = CHR ''#'' then cs else color | [] \<Rightarrow> color)
      in case body of
           [r1, r2, g1, g2, b1, b2, a1, a2] \<Rightarrow>
             (case hexChannels [[r1, r2], [g1, g2], [b1, b2], [a1, a2]] of
                Some [r, g, b, a] \<Rightarrow> Some (real r, real g, real b, real a / 255)
              | _ \<Rightarrow> None)
         | [r1, r2, g1, g2, b1, b2] \<Rightarrow>
             (case hexChannels [[r1, r2], [g1, g2], [b1, b2]] of
                Some [r, g, b] \<Rightarrow> Some (real r, real g, real b, 1)
              | _ \<Rightarrow> None)
         | [r1, g1, b1, a1] \<Rightarrow>
             (case hexChannels [[r1, r1], [g1, g1], [b1, b1], [a1, a1]] of
                Some [r, g, b, a] \<Rightarrow> Some (real r, real g, real b, real a / 255)
              | _ \<Rightarrow> None)
         | [r1, g1, b1] \<Rightarrow>
             (case hexChannels [[r1, r1], [g1, g1], [b1, b1]] of
                Some [r, g, b] \<Rightarrow> Some (real r, real g, real b, 1)
              | _ \<Rightarrow> None)
         | _ \<Rightarrow> None)"

definition construct :: "real \<Rightarrow> real \<Rightarrow> real \<Rightarrow> real \<Rightarrow> tinycolor" where
  "construct r g b a =
     (let fix = (\<lambda>c. let c1 = min 255 (max c 0) in if c1 < 1 then of_int (mathRound c1) else c1)
      in \<lparr>red = fix r, green = fix g, blue = fix b, alpha = boundAlpha a\<rparr>)"

definition rgbToRgb :: "real \<Rightarrow> real \<Rightarrow> real \<Rightarrow> real \<times> real \<times> real" where
  "rgbToRgb r g b = (bound01 (Num r) 255 * 255, bound01 (Num g) 255 * 255, bound01 (Num b) 255 * 255)"

definition tinycolor2 :: "string \<Rightarrow> tinycolor" where
  "tinycolor2 color =
     (case stringInputToObject color of
        None \<Rightarrow> construct 0 0 0 1
      | Some (r, g, b, a) \<Rightarrow> (case rgbToRgb r g b of (r1, g1, b1) \<Rightarrow> construct r1 g1 b1 a))"

definition rgbToHsl :: "real \<Rightarrow> real \<Rightarrow> real \<Rightarrow> real \<times> real \<times> real" where
  "rgbToHsl r0 g0 b0 =
     (let r = bound01 (Num r0) 255; g = bound01 (Num g0) 255; b = bound01 (Num b0) 255;
          mx = max r (max g b); mn = min r (min g b);
          l = (mx + mn) / 2
      in if mx = mn then (0, 0, l)
         else
           let d = mx - mn;
               s = (if l > 0.5 then d / (2 - mx - mn) else d / (mx + mn));
               h = (if mx = r then (g - b) / d + (if g < b then 6 else 0)
                    else if mx = g then (b - r) / d + 2
                    else (r - g) / d + 4)
           in (h / 6, s, l))"

definition hue2rgb :: "real \<Rightarrow> real \<Rightarrow> real \<Rightarrow> real" where
  "hue2rgb p q t0 =
     (let t1 = (if t0 < 0 then t0 + 1 else t0);
          t = (if t1 > 1 then t1 - 1 else t1)
      in if t < 1 / 6 then p + (q - p) * 6 * t
         else if t < 1 / 2 then q
         else if t < 2 / 3 then p + (q - p) * (2 / 3 - t) * 6
         else p)"

definition hslToRgb :: "css_unit \<Rightarrow> css_unit \<Rightarrow> css_unit \<Rightarrow> real \<times> real \<times> real" where
  "hslToRgb h0 s0 l0 =
     (let h = bound01 h0 360; s = bound01 s0 100; l = bound01 l0 100
      in if s = 0 then (l * 255, l * 255, l * 255)
         else
           let q = (if l < 0.5 then l * (1 + s) else l + s - l * s);
               p = 2 * l - q
           in (hue2rgb p q (h + 1 / 3) * 255, hue2rgb p q h * 255, hue2rgb p q (h - 1 / 3) * 255))"

definition toHsl :: "tinycolor \<Rightarrow> real \<times> real \<times> real" where
  "toHsl c = (case rgbToHsl (red c) (green c) (blue c) of (h, s, l) \<Rightarrow> (h * 360, s, l))"

definition fromHsl :: "real \<Rightarrow> real \<Rightarrow> real \<Rightarrow> real \<Rightarrow> tinycolor" where
  "fromHsl h s l a =
     (case hslToRgb (Num h) (convertToPercentage s) (convertToPercentage l) of
        (r, g, b) \<Rightarrow> construct r g b a)"

definition lighten :: "number \<Rightarrow> tinycolor \<Rightarrow> tinycolor" where
  "lighten amount c =
     (case toHsl c of (h, s, l) \<Rightarrow>
        fromHsl h s (case amount of
            Finite x \<Rightarrow> clamp01 (l + x / 100)
          | NaN \<Rightarrow> clamp01 (l + 10 / 100)
          | PosInfinity \<Rightarrow> 1
          | NegInfinity \<Rightarrow> 0) (alpha c))"

definition darken :: "number \<Rightarrow> tinycolor \<Rightarrow> tinycolor" where
  "darken amount c =
     (case toHsl c of (h, s, l) \<Rightarrow>
        fromHsl h s (case amount of
            Finite x \<Rightarrow> clamp01 (l - x / 100)
          | NaN \<Rightarrow> clamp01 (l - 10 / 100)
          | PosInfinity \<Rightarrow> 0
          | NegInfinity \<Rightarrow> 1) (alpha c))"

definition setAlpha :: "real \<Rightarrow> tinycolor \<Rightarrow> tinycolor" where
  "setAlpha v c = c\<lparr>alpha := boundAlpha v\<rparr>"

definition hexChar :: "nat \<Rightarrow> char" where
  "hexChar d = ''0123456789abcdef'' ! d"

definition pad2hex :: "int \<Rightarrow> string" where
  "pad2hex n = (let k = nat n in
     if k < 16 then [CHR ''0'', hexChar k] else [hexChar (k div 16), hexChar (k mod 16)])"

definition toHex :: "tinycolor \<Rightarrow> string" where
  "toHex c = pad2hex (mathRound (red c)) @ pad2hex (mathRound (green c)) @ pad2hex (mathRound (blue c))"

definition channelLuminance :: "real \<Rightarrow> real" where
  "channelLuminance c =
     (let srgb = of_int (mathRound c) / 255
      in if srgb \<le> 0.03928 then srgb / 12.92 else ((srgb + 0.055) / 1.055) powr 2.4)"

definition getLuminance :: "tinycolor \<Rightarrow> real" where
  "getLuminance c =
     0.2126 * channelLuminance (red c) + 0.7152 * channelLuminance (green c)
       + 0.0722 * channelLuminance (blue c)"

definition tinycolor2_lib :: "tinycolor tinycolor_lib" where
  "tinycolor2_lib = \<lparr>tc_parse = tinycolor2, tc_darken = darken, tc_lighten = lighten,
     tc_setAlpha = setAlpha, tc_toHex = toHex, tc_getLuminance = getLuminance\<rparr>"

section \<open>Shape of results\<close>

text \<open>
  A result is well-shaped when it is an error, \<^verbatim>\<open>undefined\<close>, or a string that starts
  with \<^verbatim>\<open>#\<close>.
\<close>

definition definedOrNothing :: "result \<Rightarrow> bool" where
  "definedOrNothing r = (case r of Inr (Some color) \<Rightarrow> isLiteral color | _ \<Rightarrow> True)"

text \<open>
  The format of color strings at the boundary to the renderers: \<^verbatim>\<open>#\<close> followed by six or
  eight hexadecimal digits.
\<close>

definition isHexColor :: "string \<Rightarrow> bool" where
  "isHexColor s =
     (case s of
        [] \<Rightarrow> False
      | c # ds \<Rightarrow> c = CHR ''#'' \<and> (length ds = 6 \<or> length ds = 8)
                  \<and> list_all (\<lambda>d. hexDigit d \<noteq> None) ds)"

section \<open>Ranked contexts\<close>

text \<open>
  A context has no reference cycle when its identifiers can be ranked so that the entry of
  an identifier mentions only identifiers of lower rank. \<open>valueRank\<close> is the rank a color
  value needs: one more than the highest rank of an identifier it mentions, counting the
  transforms around it. \<open>callMeasure\<close> orders the calls of the two mutually recursive
  functions.
\<close>

definition maxList :: "nat list \<Rightarrow> nat" where
  "maxList ns = foldr max ns 0"

primrec valueRank :: "(string \<Rightarrow> nat) \<Rightarrow> ColorValue \<Rightarrow> nat"
  and transformRank :: "(string \<Rightarrow> nat) \<Rightarrow> ColorTransform \<Rightarrow> nat" where
  "valueRank rk Null = 0"
| "valueRank rk Undefined = 0"
| "valueRank rk Function = 0"
| "valueRank rk (Str s) = (if isLiteral s then 0 else Suc (rk s))"
| "valueRank rk (Obj transform) = Suc (transformRank rk transform)"
| "transformRank rk (Darken v factor) = valueRank rk v"
| "transformRank rk (Lighten v factor) = valueRank rk v"
| "transformRank rk (Transparent v factor) = valueRank rk v"
| "transformRank rk (OneOf vs) = maxList (map (valueRank rk) vs)"
| "transformRank rk (LessProminent v background factor transparency) =
     max (valueRank rk v) (valueRank rk background)"
| "transformRank rk (IfDefinedThenElse ident thenv elsev) =
     max (valueRank rk thenv) (valueRank rk elsev)"
| "transformRank rk UnknownOp = 0"

definition callMeasure :: "(string \<Rightarrow> nat) \<Rightarrow> ColorValue + ColorTransform \<Rightarrow> nat" where
  "callMeasure rk x = (case x of Inl v \<Rightarrow> 2 * valueRank rk v | Inr t \<Rightarrow> 2 * transformRank rk t + 1)"

section \<open>Example contexts\<close>

text \<open>A context with a literal and a reference to it.\<close>

definition exampleTheme :: theme where
  "exampleTheme = \<lparr>props = [''A'' \<mapsto> Str ''#112233'', ''B'' \<mapsto> Str ''A''], defines_method = None\<rparr>"

text \<open>
  A registry holding the two \<^verbatim>\<open>editorWarning\<close> registrations, a theme that overrides
  one of them and includes a base theme, and defaults with a falsy entry per kind.
\<close>

definition exampleSchemes :: schemes where
  "exampleSchemes = snd (editorWarningBorder tinycolor2_lib (snd (editorWarningForeground emptySchemes)))"

definition exampleVSCodeTheme :: VSCodeTheme where
  "exampleVSCodeTheme =
     \<lparr>theme_type = Some HcLight, theme_name = ''Example'',
      colors = [''editorWarning.foreground'' \<mapsto> ''#ff0000''],
      include_path = Some ''./base.json'',
      tokenColors = [\<lparr>scope = Inl ''comment'',
                      settings = \<lparr>foreground = Some ''#008000'', fontStyle = Some ''italic''\<rparr>\<rparr>]\<rparr>"

definition exampleBaseTheme :: VSCodeTheme where
  "exampleBaseTheme =
     \<lparr>theme_type = None, theme_name = ''Base'',
      colors = [''editorWarning.foreground'' \<mapsto> ''#00ff00'', ''focusBorder'' \<mapsto> ''#0000ff''],
      include_path = None,
      tokenColors = [\<lparr>scope = Inr [''string'', ''string.quoted''],
                      settings = \<lparr>foreground = Some ''#a31515'', fontStyle = None\<rparr>\<rparr>,
                     \<lparr>scope = Inl ''keyword'',
                      settings = \<lparr>foreground = Some ''#0000ff'', fontStyle = Some ''bold''\<rparr>\<rparr>]\<rparr>"

definition exampleFiles :: "string \<rightharpoonup> VSCodeTheme" where
  "exampleFiles = [''./base.json'' \<mapsto> exampleBaseTheme]"

definition emptyStringDefaults :: ColorDefaults where
  "emptyStringDefaults = \<lparr>light = Str [], dark = Str ''#123456'', hcDark = Null, hcLight = Undefined\<rparr>"

text \<open>
  An identifier without an entry, and a context whose two identifiers refer to each other.
\<close>

definition undefinedColor :: ColorValue where
  "undefinedColor = Str ''missingId''"

definition cyclicTheme :: theme where
  "cyclicTheme = \<lparr>props = [''A'' \<mapsto> Str ''B'', ''B'' \<mapsto> Str ''A''], defines_method = None\<rparr>"

text \<open>A high-contrast dark theme without overrides.\<close>

definition hcDarkTheme :: VSCodeTheme where
  "hcDarkTheme = \<lparr>theme_type = Some HcDark, theme_name = ''High contrast'', colors = Map.empty,
     include_path = None, tokenColors = []\<rparr>"

text \<open>
  A ranking of the identifiers of \<open>exampleTheme\<close>; the key \<^verbatim>\<open>__proto__\<close> has rank 1 for
  the prototype object found under it.
\<close>

definition exampleRank :: "string \<Rightarrow> nat" where
  "exampleRank s = (if s = ''B'' \<or> s = ''__proto__'' then 1 else 0)"


section \<open>Equations of the resolver\<close>


lemma resolveColorValue_Undefined: "resolveColorValue lib th Undefined = Some (Inr None)"
  unfolding resolveColorValue_def by (subst resolve_exec.simps) simp


lemma resolveColorValue_Str:
  "resolveColorValue lib th (Str s) =
     (if isLiteral s then Some (Inr (Some s)) else resolveColorValue lib th (lookup th s))"
  unfolding resolveColorValue_def by (subst resolve_exec.simps) simp

lemma resolveColorValue_Obj:
  "resolveColorValue lib th (Obj transform) = executeTransform lib th transform"
  unfolding resolveColorValue_def executeTransform_def by (subst resolve_exec.simps) simp

lemma executeTransform_Transparent:
  "executeTransform lib th (Transparent v factor) =
     Option.bind (resolveColorValue lib th v) (\<lambda>r. case r of
         Inl e \<Rightarrow> Some (Inl e)
       | Inr None \<Rightarrow> Some (Inr None)
       | Inr (Some color) \<Rightarrow>
           if color = [] then Some (Inr None)
           else Some (Inr (Some (toHexString lib (tc_setAlpha lib factor (tc_parse lib color))))))"
  unfolding resolveColorValue_def executeTransform_def by (subst resolve_exec.simps) simp

lemma executeTransform_OneOf:
  "executeTransform lib th (OneOf vs) = oneOf_loop (resolveColorValue lib th) vs"
  unfolding resolveColorValue_def executeTransform_def by (subst resolve_exec.simps) simp

lemma executeTransform_IfDefinedThenElse:
  "executeTransform lib th (IfDefinedThenElse ident thenv elsev) =
     (case call_defines th ident of
        Inl e \<Rightarrow> Some (Inl e)
      | Inr b \<Rightarrow> resolveColorValue lib th (if b then thenv else elsev))"
  unfolding resolveColorValue_def executeTransform_def by (subst resolve_exec.simps) simp

lemma executeTransform_LessProminent:
  "executeTransform lib th (LessProminent v background factor transparency) =
     Option.bind (resolveColorValue lib th v) (\<lambda>r. case r of
         Inl e \<Rightarrow> Some (Inl e)
       | Inr None \<Rightarrow> Some (Inr None)
       | Inr (Some from) \<Rightarrow>
           if from = [] then Some (Inr None)
           else Option.bind (resolveColorValue lib th background) (\<lambda>rb.
             let alphaOnly = Some (Inr (Some (toHexString lib
                     (tc_setAlpha lib (factor * transparency) (tc_parse lib from)))))
             in case rb of
               Inl e \<Rightarrow> Some (Inl e)
             | Inr None \<Rightarrow> alphaOnly
             | Inr (Some backgroundColor) \<Rightarrow>
                 if backgroundColor = [] then alphaOnly
                 else
                   let tFrom = tc_parse lib from;
                       tBg = tc_parse lib backgroundColor
                   in Some (Inr (Some
                        (if tc_getLuminance lib tFrom < tc_getLuminance lib tBg
                         then toHexString lib (tc_setAlpha lib transparency
                                (getLighterColor lib tFrom tBg factor))
                         else toHexString lib (tc_setAlpha lib transparency
                                (getDarkerColor lib tFrom tBg factor)))))))"
  unfolding resolveColorValue_def executeTransform_def by (subst resolve_exec.simps) simp


section \<open>Null, literals and identifiers\<close>




section \<open>The theme overlay\<close>

text \<open>
  Claim C7. The lookup context is the registry table of the chosen variant (\<^verbatim>\<open>light\<close>
  when the theme names none) overwritten with the override map: an identifier of the
  override map holds the override value, an identifier found only in the registry table
  holds the registry value.
\<close>

theorem themeColors_overlay:
  "props (themeColors sch t)
     = sch (case theme_type t of None \<Rightarrow> Light | Some k \<Rightarrow> k) ++ (map_option Str \<circ> colors t)
   \<and> (\<forall>v. colors t ident = Some v \<longrightarrow> props (themeColors sch t) ident = Some (Str v))
   \<and> (colors t ident = None \<longrightarrow>
        props (themeColors sch t) ident
          = sch (case theme_type t of None \<Rightarrow> Light | Some k \<Rightarrow> k) ident)"
  by (simp add: themeColors_def Let_def map_add_def)

theorem themeColors_overlay_witness:
  "colors exampleVSCodeTheme ''editorWarning.foreground'' = Some ''#ff0000''
   \<and> props (themeColors exampleSchemes exampleVSCodeTheme) ''editorWarning.foreground''
       = Some (Str ''#ff0000'')
   \<and> colors exampleVSCodeTheme ''editorWarning.border'' = None
   \<and> props (themeColors exampleSchemes exampleVSCodeTheme) ''editorWarning.border''
       = Some (Str ''#'')"
  using themeColors_overlay [of exampleSchemes exampleVSCodeTheme "''editorWarning.foreground''"]
        themeColors_overlay [of exampleSchemes exampleVSCodeTheme "''editorWarning.border''"]
  by (simp add: exampleVSCodeTheme_def exampleSchemes_def editorWarningBorder_def
        editorWarningForeground_def registerColor_def emptySchemes_def Let_def
        defaultsValue_def truthy_def toHexString_def fromHex_transparent_def)

section \<open>The include merge\<close>

text \<open>
  Claim C8. When a theme includes a base theme, its own color overrides win over the base
  theme's on equal keys, keys only the base theme has are taken from it, and the merged
  rule list is the theme's rules followed by the base theme's: base rules \<open>[X, Y]\<close> and
  derived rules \<open>[Z]\<close> give \<open>[Z, X, Y]\<close>.
\<close>

theorem mergeInclude_override_and_concat:
  assumes "include_path t = Some p" and "p \<noteq> []" and "files p = Some base"
  shows "\<exists>m. mergeInclude files t = Inr m
           \<and> tokenColors m = tokenColors t @ tokenColors base
           \<and> (\<forall>k. (\<forall>v. colors t k = Some v \<longrightarrow> colors m k = Some v)
                  \<and> (colors t k = None \<longrightarrow> colors m k = colors base k))
           \<and> (\<forall>X Y Z. tokenColors base = [X, Y] \<longrightarrow> tokenColors t = [Z]
                  \<longrightarrow> tokenColors m = [Z, X, Y])"
  using assms by (simp add: mergeInclude_def map_add_def)

theorem mergeInclude_override_and_concat_witness:
  "include_path exampleVSCodeTheme = Some ''./base.json'' \<and> ''./base.json'' \<noteq> []
   \<and> exampleFiles ''./base.json'' = Some exampleBaseTheme
   \<and> (\<exists>m. mergeInclude exampleFiles exampleVSCodeTheme = Inr m
          \<and> tokenColors m = tokenColors exampleVSCodeTheme @ tokenColors exampleBaseTheme
          \<and> colors m ''editorWarning.foreground'' = Some ''#ff0000''
          \<and> colors m ''focusBorder'' = Some ''#0000ff''
          \<and> length (tokenColors m) = 3)"
proof -
  have h1: "include_path exampleVSCodeTheme = Some ''./base.json''"
    by (simp add: exampleVSCodeTheme_def)
  have h2: "''./base.json'' \<noteq> []" by simp
  have h3: "exampleFiles ''./base.json'' = Some exampleBaseTheme"
    by (simp add: exampleFiles_def)
  from mergeInclude_override_and_concat [of exampleVSCodeTheme "''./base.json''" exampleFiles exampleBaseTheme, OF h1 h2 h3]
  obtain m where m: "mergeInclude exampleFiles exampleVSCodeTheme = Inr m"
    "tokenColors m = tokenColors exampleVSCodeTheme @ tokenColors exampleBaseTheme"
    "\<forall>k. (\<forall>v. colors exampleVSCodeTheme k = Some v \<longrightarrow> colors m k = Some v)
        \<and> (colors exampleVSCodeTheme k = None \<longrightarrow> colors m k = colors exampleBaseTheme k)"
    by blast
  have c1: "colors m ''editorWarning.foreground'' = Some ''#ff0000''"
    using m(3) by (simp add: exampleVSCodeTheme_def)
  have c2: "colors m ''focusBorder'' = Some ''#0000ff''"
    using m(3) by (simp add: exampleVSCodeTheme_def exampleBaseTheme_def)
  have c3: "length (tokenColors m) = 3"
    using m(2) by (simp add: exampleVSCodeTheme_def exampleBaseTheme_def)
  show ?thesis using h1 h3 m(1,2) c1 c2 c3 by simp
qed

section \<open>Registration\<close>

lemma registerLoop_other:
  "j \<noteq> ident \<Longrightarrow> registerLoop d ident keys sch key j = sch key j"
  by (induction keys arbitrary: sch) (simp_all add: Let_def)

lemma registerLoop_falsy:
  "\<not> truthy (defaultsValue d key) \<Longrightarrow> registerLoop d ident keys sch key ident = sch key ident"
proof (induction keys arbitrary: sch)
  case Nil
  show ?case by simp
next
  case (Cons k keys)
  show ?case
  proof (cases "truthy (defaultsValue d k)")
    case False
    then show ?thesis using Cons by (simp add: Let_def)
  next
    case True
    with Cons.prems have "k \<noteq> key" by auto
    then show ?thesis using True Cons by (simp add: Let_def)
  qed
qed

text \<open>
  Claim C10. \<^verbatim>\<open>registerColor\<close> returns the identifier and writes at most the entries of
  that identifier: every other identifier keeps its entry in every variant. A default
  that is \<^verbatim>\<open>null\<close>, absent or the empty string is skipped, so that the identifier keeps
  its earlier entry in that variant.
\<close>

theorem registerColor_frame:
  "fst (registerColor ident defaults description sch) = ident
   \<and> (j \<noteq> ident \<longrightarrow> snd (registerColor ident defaults description sch) key j = sch key j)
   \<and> (\<forall>d. defaults = Some d \<longrightarrow> defaultsValue d key \<in> {Null, Undefined, Str []}
        \<longrightarrow> snd (registerColor ident defaults description sch) key ident = sch key ident)"
proof (intro conjI impI allI)
  show "fst (registerColor ident defaults description sch) = ident"
    by (simp add: registerColor_def split: option.split)
next
  assume "j \<noteq> ident"
  then show "snd (registerColor ident defaults description sch) key j = sch key j"
    by (simp add: registerColor_def registerLoop_other del: registerLoop.simps split: option.split)
next
  fix d
  assume d: "defaults = Some d" and v: "defaultsValue d key \<in> {Null, Undefined, Str []}"
  from v have "\<not> truthy (defaultsValue d key)" by (auto simp: truthy_def)
  then show "snd (registerColor ident defaults description sch) key ident = sch key ident"
    using d by (simp add: registerColor_def registerLoop_falsy del: registerLoop.simps)
qed

theorem registerColor_frame_witness:
  "''editorWarning.border'' \<noteq> ''editorWarning.foreground''
   \<and> snd (registerColor ''editorWarning.foreground'' (Some emptyStringDefaults) ''again'' exampleSchemes)
        HcLight ''editorWarning.border'' = Some (Str ''#'')
   \<and> defaultsValue emptyStringDefaults Light = Str []
   \<and> snd (registerColor ''editorWarning.foreground'' (Some emptyStringDefaults) ''again'' exampleSchemes)
        Light ''editorWarning.foreground'' = Some (Str ''#BF8803'')"
  using registerColor_frame [of "''editorWarning.foreground''" "Some emptyStringDefaults" "''again''"
          exampleSchemes "''editorWarning.border''" HcLight]
        registerColor_frame [of "''editorWarning.foreground''" "Some emptyStringDefaults" "''again''"
          exampleSchemes "''editorWarning.border''" Light]
  by (simp add: emptyStringDefaults_def exampleSchemes_def editorWarningBorder_def
        editorWarningForeground_def registerColor_def emptySchemes_def Let_def
        defaultsValue_def truthy_def)

section \<open>Every color string starts with \<^verbatim>\<open>#\<close>\<close>

text \<open>
  Whatever the resolver returns as a color is a verbatim literal or the output of
  \<^verbatim>\<open>toHexString\<close>; it is never empty, so the truthiness tests of the transforms
  only ever separate \<^verbatim>\<open>undefined\<close> from a color.
\<close>

lemma oneOf_loop_preserves:
  assumes f: "\<And>c r. f c = Some r \<Longrightarrow> Q r" and n: "Q (Inr None)"
  shows "oneOf_loop f cs = Some r \<Longrightarrow> Q r"
proof (induction cs)
  case Nil
  then show ?case using n by simp
next
  case (Cons c cs)
  from Cons.prems obtain r' where r': "f c = Some r'"
    and k: "(case r' of
               Inl e \<Rightarrow> Some (Inl e)
             | Inr None \<Rightarrow> oneOf_loop f cs
             | Inr (Some color) \<Rightarrow>
                 if color \<noteq> [] then Some (Inr (Some color)) else oneOf_loop f cs) = Some r"
    by (auto simp: Option.bind_eq_Some_conv)
  show ?case
  proof (cases r')
    case (Inl e)
    with k r' f show ?thesis by auto
  next
    case (Inr b)
    show ?thesis
    proof (cases b)
      case None
      with Inr k Cons.IH show ?thesis by simp
    next
      case (Some color)
      with Inr k r' f Cons.IH show ?thesis by (cases "color = []") auto
    qed
  qed
qed

lemma result_cases:
  fixes r :: result
  obtains (Raised) e where "r = Inl e"
        | (Nothing) "r = Inr None"
        | (Color) color where "r = Inr (Some color)"
  by (cases r) (auto split: option.splits)

lemma definedOrNothing_simps:
  "definedOrNothing (Inl e)"
  "definedOrNothing (Inr None)"
  "isLiteral (toHexString lib c)"
  "definedOrNothing (Inr (Some s)) = isLiteral s"
  by (simp_all add: definedOrNothing_def toHexString_def isLiteral_def)

lemma resolve_exec_literal:
  assumes "resolve_exec lib th x = Some r"
  shows "definedOrNothing r"
proof -
  have "(case ((lib, th), x) of
           (p, x') \<Rightarrow> (case p of (lib', th') \<Rightarrow> (\<lambda>l t v r. definedOrNothing r) lib' th') x') r"
  proof (rule resolve_exec.raw_induct [where P = "\<lambda>l t v r. definedOrNothing r"], goal_cases)
    case (1 rec lib th x r)
    note IH = 1(1) and body = 1(2)
    show ?case
    proof (cases x)
      case (Inl cv)
      then show ?thesis using body
        by (cases cv) (auto simp: definedOrNothing_simps split: if_splits intro: IH)
    next
      case (Inr t)
      show ?thesis
      proof (cases t)
        case (Darken v f)
        with body Inr obtain y where
          "(case y of Inl e \<Rightarrow> Some (Inl e) | Inr None \<Rightarrow> Some (Inr None)
            | Inr (Some color) \<Rightarrow> if color = [] then Some (Inr None)
                else Some (Inr (Some (toHexString lib
                       (tc_darken lib (Finite f) (tc_parse lib color)))))) = Some r"
          by (auto simp: Option.bind_eq_Some_conv)
        then show ?thesis
          by (cases y rule: result_cases) (auto simp: definedOrNothing_simps split: if_splits)
      next
        case (Lighten v f)
        with body Inr obtain y where
          "(case y of Inl e \<Rightarrow> Some (Inl e) | Inr None \<Rightarrow> Some (Inr None)
            | Inr (Some color) \<Rightarrow> if color = [] then Some (Inr None)
                else Some (Inr (Some (toHexString lib
                       (tc_lighten lib (Finite f) (tc_parse lib color)))))) = Some r"
          by (auto simp: Option.bind_eq_Some_conv)
        then show ?thesis
          by (cases y rule: result_cases) (auto simp: definedOrNothing_simps split: if_splits)
      next
        case (Transparent v f)
        with body Inr obtain y where
          "(case y of Inl e \<Rightarrow> Some (Inl e) | Inr None \<Rightarrow> Some (Inr None)
            | Inr (Some color) \<Rightarrow> if color = [] then Some (Inr None)
                else Some (Inr (Some (toHexString lib
                       (tc_setAlpha lib f (tc_parse lib color)))))) = Some r"
          by (auto simp: Option.bind_eq_Some_conv)
        then show ?thesis
          by (cases y rule: result_cases) (auto simp: definedOrNothing_simps split: if_splits)
      next
        case (OneOf vs)
        have "oneOf_loop (\<lambda>candidate. rec lib th (Inl candidate)) vs = Some r"
          using body Inr OneOf by simp
        then show ?thesis
        proof (rule oneOf_loop_preserves [rotated 2])
          show "\<And>c r. rec lib th (Inl c) = Some r \<Longrightarrow> definedOrNothing r"
            by (rule IH)
          show "definedOrNothing (Inr None)"
            by (simp add: definedOrNothing_simps)
        qed
      next
        case (IfDefinedThenElse i a b)
        then show ?thesis using body Inr
          by (auto simp: definedOrNothing_simps split: sum.splits intro: IH)
      next
        case (LessProminent v bg f tr)
        with body Inr obtain y where
          y: "(case y of Inl e \<Rightarrow> Some (Inl e) | Inr None \<Rightarrow> Some (Inr None)
            | Inr (Some from) \<Rightarrow> if from = [] then Some (Inr None)
                else Option.bind (rec lib th (Inl bg)) (\<lambda>rb.
                      let alphaOnly = Some (Inr (Some (toHexString lib
                              (tc_setAlpha lib (f * tr) (tc_parse lib from)))))
                      in case rb of
                        Inl e \<Rightarrow> Some (Inl e)
                      | Inr None \<Rightarrow> alphaOnly
                      | Inr (Some backgroundColor) \<Rightarrow>
                          if backgroundColor = [] then alphaOnly
                          else
                            let tFrom = tc_parse lib from;
                                tBg = tc_parse lib backgroundColor
                            in Some (Inr (Some
                                 (if tc_getLuminance lib tFrom < tc_getLuminance lib tBg
                                  then toHexString lib (tc_setAlpha lib tr
                                         (getLighterColor lib tFrom tBg f))
                                  else toHexString lib (tc_setAlpha lib tr
                                         (getDarkerColor lib tFrom tBg f))))))) = Some r"
          by (auto simp: Option.bind_eq_Some_conv)
        show ?thesis
        proof (cases y rule: result_cases)
          case (Color fromc)
          show ?thesis
          proof (cases "fromc = []")
            case True
            with y Color show ?thesis by (auto simp: definedOrNothing_simps)
          next
            case False
            with y Color obtain rb where
              "(let alphaOnly = Some (Inr (Some (toHexString lib
                              (tc_setAlpha lib (f * tr) (tc_parse lib fromc)))))
                in case rb of
                        Inl e \<Rightarrow> Some (Inl e)
                      | Inr None \<Rightarrow> alphaOnly
                      | Inr (Some backgroundColor) \<Rightarrow>
                          if backgroundColor = [] then alphaOnly
                          else
                            let tFrom = tc_parse lib fromc;
                                tBg = tc_parse lib backgroundColor
                            in Some (Inr (Some
                                 (if tc_getLuminance lib tFrom < tc_getLuminance lib tBg
                                  then toHexString lib (tc_setAlpha lib tr
                                         (getLighterColor lib tFrom tBg f))
                                  else toHexString lib (tc_setAlpha lib tr
                                         (getDarkerColor lib tFrom tBg f)))))) = Some r"
              by (auto simp: Option.bind_eq_Some_conv)
            then show ?thesis
              by (cases rb rule: result_cases)
                 (auto simp: definedOrNothing_simps Let_def split: if_splits)
          qed
        qed (use y in \<open>auto simp: definedOrNothing_simps\<close>)
      next
        case UnknownOp
        then show ?thesis using body Inr by (auto simp: definedOrNothing_simps)
      qed
    qed
  next
    case 2
    show ?case using assms by simp
  qed
  then show ?thesis by simp
qed

lemma resolveColorValue_nonempty:
  "resolveColorValue lib th v = Some (Inr (Some color)) \<Longrightarrow> color \<noteq> []"
  using resolve_exec_literal [of lib th "Inl v" "Inr (Some color)"]
  by (auto simp: resolveColorValue_def definedOrNothing_def isLiteral_def)

lemma oneOf_loop_skip:
  "\<forall>c \<in> set pre. f c = Some (Inr None) \<Longrightarrow> oneOf_loop f (pre @ cs) = oneOf_loop f cs"
  by (induction pre) simp_all

section \<open>OneOf\<close>

text \<open>
  Claim C5. The candidates of \<^verbatim>\<open>OneOf\<close> are resolved in list order and the first
  defined result is returned: when the candidates \<open>pre\<close> all resolve to \<^verbatim>\<open>undefined\<close>
  and the next candidate resolves to a color, that color is the result whatever the
  candidates \<open>rest\<close> behind it are (they may raise or fail to terminate, they are not
  resolved); when every candidate resolves to \<^verbatim>\<open>undefined\<close>, so does the transform.
\<close>

theorem oneOf_first_defined:
  assumes "\<forall>c \<in> set pre. resolveColorValue lib th c = Some (Inr None)"
  shows "(resolveColorValue lib th c = Some (Inr (Some color)) \<longrightarrow>
            executeTransform lib th (OneOf (pre @ c # rest)) = Some (Inr (Some color)))
         \<and> executeTransform lib th (OneOf pre) = Some (Inr None)"
proof (intro conjI impI)
  assume c: "resolveColorValue lib th c = Some (Inr (Some color))"
  then have "color \<noteq> []" by (rule resolveColorValue_nonempty)
  with c show "executeTransform lib th (OneOf (pre @ c # rest)) = Some (Inr (Some color))"
    using assms by (simp add: executeTransform_OneOf oneOf_loop_skip)
next
  show "executeTransform lib th (OneOf pre) = Some (Inr None)"
    using oneOf_loop_skip [of pre "resolveColorValue lib th" "[]"] assms
    by (simp add: executeTransform_OneOf)
qed

theorem oneOf_first_defined_witness:
  "resolveColorValue tinycolor2_lib cyclicTheme undefinedColor = Some (Inr None)
   \<and> resolveColorValue tinycolor2_lib cyclicTheme (Str ''#ff0000'') = Some (Inr (Some ''#ff0000''))
   \<and> executeTransform tinycolor2_lib cyclicTheme
        (OneOf [undefinedColor, Str ''#ff0000'', Str ''A'', Obj UnknownOp])
       = Some (Inr (Some ''#ff0000''))
   \<and> executeTransform tinycolor2_lib cyclicTheme (OneOf [undefinedColor, undefinedColor])
       = Some (Inr None)"
proof -
  have u: "resolveColorValue tinycolor2_lib cyclicTheme undefinedColor = Some (Inr None)"
    by (simp add: undefinedColor_def resolveColorValue_Str resolveColorValue_Undefined
          isLiteral_def lookup_def objectPrototypeMethods_def cyclicTheme_def)
  have h1: "\<forall>c \<in> set [undefinedColor]. resolveColorValue tinycolor2_lib cyclicTheme c = Some (Inr None)"
    using u by simp
  have h2: "\<forall>c \<in> set [undefinedColor, undefinedColor].
              resolveColorValue tinycolor2_lib cyclicTheme c = Some (Inr None)"
    using u by simp
  have l: "resolveColorValue tinycolor2_lib cyclicTheme (Str ''#ff0000'') = Some (Inr (Some ''#ff0000''))"
    by (simp add: resolveColorValue_Str isLiteral_def)
  show ?thesis
    using u l
      oneOf_first_defined [OF h1, of "Str ''#ff0000''" "''#ff0000''" "[Str ''A'', Obj UnknownOp]"]
      oneOf_first_defined [OF h2, of "Str ''#ff0000''" "''#ff0000''" "[]"]
    by simp
qed

section \<open>IfDefinedThenElse\<close>

text \<open>
  With a context that has a method \<^verbatim>\<open>defines\<close>, the transform resolves the branch the
  method selects.
\<close>

lemma ifDefinedThenElse_with_defines:
  "defines_method th = Some d \<Longrightarrow>
     executeTransform lib th (IfDefinedThenElse ident thenv elsev)
       = resolveColorValue lib th (if d ident then thenv else elsev)"
  by (simp add: executeTransform_IfDefinedThenElse call_defines_def)

text \<open>
  Claim C2. The claim is that \<^verbatim>\<open>IfDefinedThenElse\<close> tests whether the context has an
  entry for the identifier and resolves the matching branch, so that
  \<^verbatim>\<open>IfDefinedThenElse("missingId", "#fff", "#000")\<close> gives \<^verbatim>\<open>"#000"\<close> when the identifier is
  absent. On the contexts the providers build, which are plain objects without a method
  \<^verbatim>\<open>defines\<close>, the call \<^verbatim>\<open>theme.defines(...)\<close> raises a \<^verbatim>\<open>TypeError\<close> instead,
  whatever the identifier and the branches are.
\<close>

theorem ifDefinedThenElse_raises_on_plain_object:
  "executeTransform lib (themeColors sch t) (IfDefinedThenElse ident thenv elsev)
     = Some (Inl TypeError)
   \<and> resolveColorValue tinycolor2_lib (themeColors exampleSchemes exampleVSCodeTheme)
         (Obj (IfDefinedThenElse ''missingId'' (Str ''#fff'') (Str ''#000'')))
     = Some (Inl TypeError)"
  by (simp add: resolveColorValue_Obj executeTransform_IfDefinedThenElse call_defines_def
        themeColors_def Let_def)

section \<open>Evaluating the library model\<close>

lemmas tinycolor2_defs =
  tinycolor2_lib_def tinycolor2_def stringInputToObject.simps hexChannels_def hexDigit_def
  trim_def isSpace_def rgbToRgb_def bound01_def construct_def mathRound_def boundAlpha_def
  setAlpha_def toHex_def pad2hex_def hexChar_def toHexString_def Let_def

section \<open>Transparent\<close>

text \<open>
  The transform passes \<^verbatim>\<open>undefined\<close> through without calling the library, and otherwise
  prints the color after setting its alpha. The library model prints seven characters,
  whatever the alpha is.
\<close>

lemma transparent_undefined:
  "resolveColorValue lib th v = Some (Inr None) \<Longrightarrow>
     executeTransform lib th (Transparent v factor) = Some (Inr None)"
  by (simp add: executeTransform_Transparent)

lemma transparent_defined:
  assumes "resolveColorValue lib th v = Some (Inr (Some color))"
  shows "executeTransform lib th (Transparent v factor)
           = Some (Inr (Some (toHexString lib (tc_setAlpha lib factor (tc_parse lib color)))))"
  using assms resolveColorValue_nonempty [OF assms]
  by (simp add: executeTransform_Transparent)

lemma toHexString_tinycolor2_length: "length (toHexString tinycolor2_lib c) = 7"
  by (simp add: toHexString_def tinycolor2_lib_def toHex_def pad2hex_def Let_def)

text \<open>
  Claim C3. The claim is that \<^verbatim>\<open>Transparent("#000000", 0.5)\<close> resolves to black with alpha
  0.5, \<^verbatim>\<open>#00000080\<close>. The code sets the alpha and then prints with \<^verbatim>\<open>toHexString\<close>,
  which prints the three color channels only: the result is \<^verbatim>\<open>#000000\<close>.
\<close>

theorem transparent_black_half_drops_alpha:
  "resolveColorValue tinycolor2_lib th (Obj (Transparent (Str ''#000000'') 0.5))
     = Some (Inr (Some ''#000000''))"
  by (simp add: resolveColorValue_Obj executeTransform_Transparent resolveColorValue_Str
        isLiteral_def tinycolor2_defs)

section \<open>Registered literals\<close>

text \<open>
  Claim C9. The claim is that every color string resolved for a registered identifier has
  six or eight hexadecimal digits. The high-contrast dark default of
  \<^verbatim>\<open>editorWarning.foreground\<close> is registered as \<^verbatim>\<open>#FFD37\<close> and the high-contrast light
  default of \<^verbatim>\<open>editorWarning.border\<close> as \<^verbatim>\<open>#\<close>; both are returned verbatim.
\<close>

theorem editorWarning_foreground_not_hex:
  "getColor tinycolor2_lib exampleSchemes hcDarkTheme ''editorWarning.foreground''
     = Some (Inr (Some ''#FFD37''))
   \<and> \<not> isHexColor ''#FFD37''
   \<and> getColor tinycolor2_lib exampleSchemes exampleVSCodeTheme ''editorWarning.border''
     = Some (Inr (Some ''#''))
   \<and> \<not> isHexColor ''#''"
  by (simp add: getColor_def resolveColorValue_Str isLiteral_def lookup_def themeColors_def
        hcDarkTheme_def exampleVSCodeTheme_def exampleSchemes_def editorWarningBorder_def editorWarningForeground_def
        registerColor_def emptySchemes_def defaultsValue_def truthy_def isHexColor_def Let_def
        toHexString_def fromHex_transparent_def)

section \<open>Termination\<close>

lemma maxList_ge: "n \<in> set ns \<Longrightarrow> n \<le> maxList ns"
  by (induction ns) (auto simp: maxList_def)

lemma oneOf_loop_total:
  "(\<And>c. c \<in> set cs \<Longrightarrow> \<exists>r. f c = Some r) \<Longrightarrow> \<exists>r. oneOf_loop f cs = Some r"
proof (induction cs)
  case Nil
  show ?case by simp
next
  case (Cons c cs)
  from Cons.prems [of c] obtain y where y: "f c = Some y" by auto
  from Cons have rest: "\<exists>r. oneOf_loop f cs = Some r" by auto
  show ?case
  proof (cases y rule: result_cases)
    case (Color color)
    with y rest show ?thesis by (cases "color = []") simp_all
  qed (use y rest in simp_all)
qed

lemma resolve_exec_total:
  assumes ranked: "\<forall>s. valueRank rk (lookup th s) \<le> rk s"
  shows "\<exists>r. resolve_exec lib th x = Some r"
proof (induction x rule: measure_induct_rule [of "callMeasure rk"])
  case (less x)
  have val: "\<exists>r. resolve_exec lib th (Inl v) = Some r" if "2 * valueRank rk v < callMeasure rk x" for v
    using less [of "Inl v"] that by (simp add: callMeasure_def)
  show ?case
  proof (cases x)
    case (Inl cv)
    show ?thesis
    proof (cases cv)
      case (Str s)
      show ?thesis
      proof (cases "isLiteral s")
        case True
        with Inl Str show ?thesis by (subst resolve_exec.simps) simp
      next
        case False
        have "2 * valueRank rk (lookup th s) < callMeasure rk x"
          using ranked [rule_format, of s] False Inl Str by (simp add: callMeasure_def)
        from val [OF this] show ?thesis
          using False Inl Str by (subst resolve_exec.simps) simp
      qed
    next
      case (Obj t)
      have "\<exists>r. resolve_exec lib th (Inr t) = Some r"
        using less [of "Inr t"] Inl Obj by (simp add: callMeasure_def)
      then show ?thesis using Inl Obj by (subst resolve_exec.simps) simp
    qed (use Inl in \<open>subst resolve_exec.simps, simp\<close>)+
  next
    case (Inr t)
    show ?thesis
    proof (cases t)
      case (Darken v f)
      have "2 * valueRank rk v < callMeasure rk x"
        using Inr Darken by (simp add: callMeasure_def)
      from val [OF this] obtain y where "resolve_exec lib th (Inl v) = Some y" ..
      then show ?thesis using Inr Darken
        by (subst resolve_exec.simps) (cases y rule: result_cases, simp_all)
    next
      case (Lighten v f)
      have "2 * valueRank rk v < callMeasure rk x"
        using Inr Lighten by (simp add: callMeasure_def)
      from val [OF this] obtain y where "resolve_exec lib th (Inl v) = Some y" ..
      then show ?thesis using Inr Lighten
        by (subst resolve_exec.simps) (cases y rule: result_cases, simp_all)
    next
      case (Transparent v f)
      have "2 * valueRank rk v < callMeasure rk x"
        using Inr Transparent by (simp add: callMeasure_def)
      from val [OF this] obtain y where "resolve_exec lib th (Inl v) = Some y" ..
      then show ?thesis using Inr Transparent
        by (subst resolve_exec.simps) (cases y rule: result_cases, simp_all)
    next
      case (OneOf vs)
      have "\<exists>r. oneOf_loop (\<lambda>candidate. resolve_exec lib th (Inl candidate)) vs = Some r"
      proof (rule oneOf_loop_total)
        fix c assume "c \<in> set vs"
        then have "valueRank rk c \<le> maxList (map (valueRank rk) vs)"
          by (intro maxList_ge) simp
        then have "2 * valueRank rk c < callMeasure rk x"
          using Inr OneOf by (simp add: callMeasure_def)
        from val [OF this] show "\<exists>r. resolve_exec lib th (Inl c) = Some r" .
      qed
      then show ?thesis using Inr OneOf by (subst resolve_exec.simps) simp
    next
      case (LessProminent v bg f tr)
      have "2 * valueRank rk v < callMeasure rk x" "2 * valueRank rk bg < callMeasure rk x"
        using Inr LessProminent by (simp_all add: callMeasure_def)
      from val [OF this(1)] val [OF this(2)] obtain y yb where
        y: "resolve_exec lib th (Inl v) = Some y" and yb: "resolve_exec lib th (Inl bg) = Some yb"
        by auto
      show ?thesis using Inr LessProminent y yb
        by (subst resolve_exec.simps)
           (cases y rule: result_cases; cases yb rule: result_cases; simp add: Let_def)
    next
      case (IfDefinedThenElse i a b)
      have "2 * valueRank rk a < callMeasure rk x" "2 * valueRank rk b < callMeasure rk x"
        using Inr IfDefinedThenElse by (simp_all add: callMeasure_def)
      from val [OF this(1)] val [OF this(2)]
      show ?thesis using Inr IfDefinedThenElse
        by (subst resolve_exec.simps) (auto split: sum.splits)
    next
      case UnknownOp
      then show ?thesis using Inr by (subst resolve_exec.simps) simp
    qed
  qed
qed

lemma resolve_exec_cycle:
  assumes "resolve_exec lib th x = Some r"
  shows "th = cyclicTheme \<longrightarrow> x \<noteq> Inl (Str ''A'') \<and> x \<noteq> Inl (Str ''B'')"
proof -
  have "(case ((lib, th), x) of
           (p, x') \<Rightarrow> (case p of (lib', th') \<Rightarrow>
              (\<lambda>l t v r. t = cyclicTheme \<longrightarrow> v \<noteq> Inl (Str ''A'') \<and> v \<noteq> Inl (Str ''B''))
                lib' th') x') r"
  proof (rule resolve_exec.raw_induct
           [where P = "\<lambda>l t v r. t = cyclicTheme \<longrightarrow> v \<noteq> Inl (Str ''A'') \<and> v \<noteq> Inl (Str ''B'')"],
         goal_cases)
    case (1 rec lib th x r)
    have A: "lookup cyclicTheme ''A'' = Str ''B''" and B: "lookup cyclicTheme ''B'' = Str ''A''"
      by (simp_all add: lookup_def cyclicTheme_def)
    show ?case
    proof (intro impI conjI notI)
      assume "th = cyclicTheme" and "x = Inl (Str ''A'')"
      with 1(2) have "rec lib cyclicTheme (Inl (Str ''B'')) = Some r"
        by (simp add: isLiteral_def A)
      from 1(1) [OF this] show False by simp
    next
      assume "th = cyclicTheme" and "x = Inl (Str ''B'')"
      with 1(2) have "rec lib cyclicTheme (Inl (Str ''A'')) = Some r"
        by (simp add: isLiteral_def B)
      from 1(1) [OF this] show False by simp
    qed
  next
    case 2
    show ?case using assms by simp
  qed
  then show ?thesis by simp
qed

text \<open>
  Claim C6, as stated: resolution always terminates, and a cyclic identifier chain is
  detected and resolves to \<^verbatim>\<open>undefined\<close>. The resolver has no cycle detection: in the
  context that maps \<^verbatim>\<open>A\<close> to \<^verbatim>\<open>"B"\<close> and \<^verbatim>\<open>B\<close> to \<^verbatim>\<open>"A"\<close>, resolving \<^verbatim>\<open>A\<close> does not
  return.
\<close>

theorem cyclic_chain_does_not_terminate:
  "resolveColorValue tinycolor2_lib cyclicTheme (Str ''A'') = None"
proof (cases "resolveColorValue tinycolor2_lib cyclicTheme (Str ''A'')")
  case None
  then show ?thesis .
next
  case (Some r)
  then have "resolve_exec tinycolor2_lib cyclicTheme (Inl (Str ''A'')) = Some r"
    by (simp add: resolveColorValue_def)
  from resolve_exec_cycle [OF this] show ?thesis by simp
qed

text \<open>
  Claim C6, amended: in every context whose identifiers can be ranked so that each entry
  mentions only identifiers of lower rank, the resolution of every color value
  terminates.
\<close>

theorem ranked_context_terminates:
  assumes "\<forall>s. valueRank rk (lookup th s) \<le> rk s"
  shows "\<exists>r. resolveColorValue lib th v = Some r"
  unfolding resolveColorValue_def using assms by (rule resolve_exec_total)

theorem ranked_context_terminates_witness:
  "(\<forall>s. valueRank exampleRank (lookup exampleTheme s) \<le> exampleRank s)
   \<and> (\<exists>r. resolveColorValue tinycolor2_lib exampleTheme
              (Obj (OneOf [Str ''C'', Obj (Darken (Str ''B'') 0.2)])) = Some r)"
proof -
  have h: "\<forall>s. valueRank exampleRank (lookup exampleTheme s) \<le> exampleRank s"
    by (simp add: lookup_def exampleTheme_def exampleRank_def isLiteral_def
          objectPrototypeMethods_def)
  from ranked_context_terminates [OF h] h show ?thesis by blast
qed

section \<open>LessProminent\<close>

text \<open>Values of the library model on the greys used below.\<close>

lemma parse_black: "tinycolor2 ''#000000'' = \<lparr>red = 0, green = 0, blue = 0, alpha = 1\<rparr>"
  by (simp add: tinycolor2_defs)

lemma parse_0a: "tinycolor2 ''#0a0a0a'' = \<lparr>red = 10, green = 10, blue = 10, alpha = 1\<rparr>"
  by (simp add: tinycolor2_defs)

lemma parse_01: "tinycolor2 ''#010101'' = \<lparr>red = 1, green = 1, blue = 1, alpha = 1\<rparr>"
  by (simp add: tinycolor2_defs)

lemma luminance_grey:
  "getLuminance \<lparr>red = 0, green = 0, blue = 0, alpha = 1\<rparr> = 0"
  "getLuminance \<lparr>red = 1, green = 1, blue = 1, alpha = 1\<rparr> = 1 / 3294.6"
  "getLuminance \<lparr>red = 10, green = 10, blue = 10, alpha = 1\<rparr> = 10 / 3294.6"
  by (simp_all add: getLuminance_def channelLuminance_def mathRound_def)

lemmas hsl_defs = lighten_def darken_def toHsl_def rgbToHsl_def fromHsl_def hslToRgb_def
  convertToPercentage_def clamp01_def hue2rgb_def bound01_def construct_def
  mathRound_def boundAlpha_def Let_def

lemma lighten_black_half:
  "lighten (Finite (1 / 2)) \<lparr>red = 0, green = 0, blue = 0, alpha = 1\<rparr>
     = \<lparr>red = 51 / 40, green = 51 / 40, blue = 51 / 40, alpha = 1\<rparr>"
  by (simp add: hsl_defs)

lemma lighten_black_tenth:
  "lighten (Finite (1 / 10)) \<lparr>red = 0, green = 0, blue = 0, alpha = 1\<rparr>
     = \<lparr>red = 0, green = 0, blue = 0, alpha = 1\<rparr>"
  by (simp add: hsl_defs)

lemma toHexString_values:
  "toHexString tinycolor2_lib \<lparr>red = 51 / 40, green = 51 / 40, blue = 51 / 40, alpha = a\<rparr> = ''#010101''"
  "toHexString tinycolor2_lib \<lparr>red = 0, green = 0, blue = 0, alpha = a\<rparr> = ''#000000''"
  by (simp_all add: toHexString_def tinycolor2_lib_def toHex_def pad2hex_def hexChar_def mathRound_def)

lemma lighten_black_three_tenths:
  "lighten (Finite (3 / 10)) \<lparr>red = 0, green = 0, blue = 0, alpha = 1\<rparr>
     = \<lparr>red = 1, green = 1, blue = 1, alpha = 1\<rparr>"
  by (simp add: hsl_defs)

lemma toHexString_one:
  "toHexString tinycolor2_lib \<lparr>red = 1, green = 1, blue = 1, alpha = a\<rparr> = ''#010101''"
  by (simp add: toHexString_def tinycolor2_lib_def toHex_def pad2hex_def hexChar_def mathRound_def)

text \<open>
  Claim C4, as stated: the output has alpha exactly \<open>transparency\<close>, and when the
  foreground is darker than the background its luminance moves strictly between the two
  for a factor between 0 and 1 and stays put for a factor of 0. With black on
  \<^verbatim>\<open>#0a0a0a\<close> and a factor of 0 the result is \<^verbatim>\<open>#010101\<close>: the factor is replaced by one
  half, the luminance changes, and the printed color has no alpha channel, so that it
  reads back as opaque. With black on \<^verbatim>\<open>#010101\<close> and a factor of one tenth the result
  is black again, whose luminance is not above that of the foreground.
\<close>

theorem lessProminent_counterexample:
  "executeTransform tinycolor2_lib exampleTheme
      (LessProminent (Str ''#000000'') (Str ''#0a0a0a'') 0 0.6) = Some (Inr (Some ''#010101''))
   \<and> getLuminance (tinycolor2 ''#000000'') < getLuminance (tinycolor2 ''#0a0a0a'')
   \<and> getLuminance (tinycolor2 ''#010101'') \<noteq> getLuminance (tinycolor2 ''#000000'')
   \<and> alpha (tinycolor2 ''#010101'') \<noteq> 0.6
   \<and> executeTransform tinycolor2_lib exampleTheme
      (LessProminent (Str ''#000000'') (Str ''#010101'') 0.1 0.6) = Some (Inr (Some ''#000000''))
   \<and> getLuminance (tinycolor2 ''#000000'') < getLuminance (tinycolor2 ''#010101'')"
proof -
  have fg: "resolveColorValue tinycolor2_lib exampleTheme (Str ''#000000'')
              = Some (Inr (Some ''#000000''))"
    and bg1: "resolveColorValue tinycolor2_lib exampleTheme (Str ''#0a0a0a'')
              = Some (Inr (Some ''#0a0a0a''))"
    and bg2: "resolveColorValue tinycolor2_lib exampleTheme (Str ''#010101'')
              = Some (Inr (Some ''#010101''))"
    by (simp_all add: resolveColorValue_Str isLiteral_def)
  have sel: "tc_parse tinycolor2_lib = tinycolor2" "tc_getLuminance tinycolor2_lib = getLuminance"
    "tc_lighten tinycolor2_lib = lighten" "tc_setAlpha tinycolor2_lib = setAlpha"
    by (simp_all add: tinycolor2_lib_def)
  have e1: "executeTransform tinycolor2_lib exampleTheme
      (LessProminent (Str ''#000000'') (Str ''#0a0a0a'') 0 0.6) = Some (Inr (Some ''#010101''))"
    by (simp add: executeTransform_LessProminent fg bg1 getLighterColor_def sel parse_black
          parse_0a luminance_grey js_div_def lighten_black_half setAlpha_def boundAlpha_def
          toHexString_values)
  have e2: "executeTransform tinycolor2_lib exampleTheme
      (LessProminent (Str ''#000000'') (Str ''#010101'') 0.1 0.6) = Some (Inr (Some ''#000000''))"
    by (simp add: executeTransform_LessProminent fg bg2 getLighterColor_def sel parse_black
          parse_01 luminance_grey js_div_def lighten_black_tenth setAlpha_def boundAlpha_def
          toHexString_values)
  show ?thesis
    using e1 e2 by (simp add: parse_black parse_0a parse_01 luminance_grey)
qed

text \<open>
  Claim C4, amended: when foreground and background resolve to colors and the foreground
  has the lower luminance, the result is the foreground lightened by the amount
  \<open>f * (luminance bg - luminance fg) / luminance bg\<close>, where \<open>f\<close> is the factor, or one half
  when the factor is 0, then given the alpha \<open>transparency\<close> and printed by
  \<^verbatim>\<open>toHexString\<close>.
\<close>

theorem lessProminent_lightens:
  assumes fg: "resolveColorValue lib th v = Some (Inr (Some fromColor))"
    and bg: "resolveColorValue lib th background = Some (Inr (Some backgroundColor))"
    and lum: "tc_getLuminance lib (tc_parse lib fromColor)
                < tc_getLuminance lib (tc_parse lib backgroundColor)"
  shows "executeTransform lib th (LessProminent v background factor transparency) =
     Some (Inr (Some (toHexString lib (tc_setAlpha lib transparency
       (tc_lighten lib
          (js_div ((if factor = 0 then 0.5 else factor)
                     * (tc_getLuminance lib (tc_parse lib backgroundColor)
                        - tc_getLuminance lib (tc_parse lib fromColor)))
                  (tc_getLuminance lib (tc_parse lib backgroundColor)))
          (tc_parse lib fromColor))))))"
proof -
  from fg have f: "fromColor \<noteq> []" by (rule resolveColorValue_nonempty)
  from bg have b: "backgroundColor \<noteq> []" by (rule resolveColorValue_nonempty)
  show ?thesis
    using lum by (simp add: executeTransform_LessProminent fg bg f b getLighterColor_def Let_def)
qed

theorem lessProminent_lightens_witness:
  "resolveColorValue tinycolor2_lib exampleTheme (Str ''#000000'') = Some (Inr (Some ''#000000''))
   \<and> resolveColorValue tinycolor2_lib exampleTheme (Str ''#0a0a0a'') = Some (Inr (Some ''#0a0a0a''))
   \<and> getLuminance (tinycolor2 ''#000000'') < getLuminance (tinycolor2 ''#0a0a0a'')
   \<and> executeTransform tinycolor2_lib exampleTheme
         (LessProminent (Str ''#000000'') (Str ''#0a0a0a'') 0.3 0.6) = Some (Inr (Some ''#010101''))"
proof -
  have fg: "resolveColorValue tinycolor2_lib exampleTheme (Str ''#000000'')
              = Some (Inr (Some ''#000000''))"
    and bg: "resolveColorValue tinycolor2_lib exampleTheme (Str ''#0a0a0a'')
              = Some (Inr (Some ''#0a0a0a''))"
    by (simp_all add: resolveColorValue_Str isLiteral_def)
  have sel: "tc_parse tinycolor2_lib = tinycolor2" "tc_getLuminance tinycolor2_lib = getLuminance"
    "tc_lighten tinycolor2_lib = lighten" "tc_setAlpha tinycolor2_lib = setAlpha"
    by (simp_all add: tinycolor2_lib_def)
  have lum: "tc_getLuminance tinycolor2_lib (tc_parse tinycolor2_lib ''#000000'')
               < tc_getLuminance tinycolor2_lib (tc_parse tinycolor2_lib ''#0a0a0a'')"
    by (simp add: sel parse_black parse_0a luminance_grey)
  from lessProminent_lightens [OF fg bg lum, of "0.3" "0.6"]
  have "executeTransform tinycolor2_lib exampleTheme
         (LessProminent (Str ''#000000'') (Str ''#0a0a0a'') 0.3 0.6) = Some (Inr (Some ''#010101''))"
    by (simp add: sel parse_black parse_0a luminance_grey js_div_def lighten_black_three_tenths
          setAlpha_def boundAlpha_def toHexString_one)
  with fg bg lum show ?thesis by (simp add: sel)
qed

end
